theory Spec2Isabelle
  imports Main "HOL-Library.Word" "HOL-Library.Sublist"
begin

unbundle bit_operations_syntax

section \<open>Bitstring status list decoding: the data model\<close>

text \<open>
  The development follows \<^verbatim>\<open>BitstringService\<close> in its DetailedError-returning form
  (the 623-line service file) and, for the comparison of the two bit readers, the older
  exception-throwing form in \<^verbatim>\<open>src/services/bitstringService.ts\<close>.

  Conventions of the embedding:
  \<^item> a \<^verbatim>\<open>Uint8Array\<close> is a list of 8-bit words;
  \<^item> a JavaScript number that holds an integer is an \<^typ>\<open>int\<close>; the operators
    \<^verbatim>\<open>&\<close> and \<^verbatim>\<open><<\<close> work on 32-bit words, as ECMAScript's ToInt32 prescribes;
  \<^item> a function that returns \<^verbatim>\<open>T | DetailedError\<close> returns a sum, \<open>Inl\<close> the error;
  \<^item> a thrown exception is a value as well (\<open>Inl\<close> of the thrown value).
\<close>

type_synonym byte = "8 word"
type_synonym Uint8Array = "byte list"

text \<open>The enum \<^verbatim>\<open>ErrorCode\<close> of \<^verbatim>\<open>types/bitstring.ts\<close>, member for member.\<close>

datatype ErrorCode =
    NETWORK_ERROR | CORS_ERROR | TIMEOUT
  | NOT_FOUND | UNAUTHORIZED | FORBIDDEN | SERVER_ERROR | BAD_GATEWAY | SERVICE_UNAVAILABLE
  | INVALID_JSON | INVALID_CREDENTIAL_FORMAT | MISSING_CREDENTIAL_TYPE
  | UNSUPPORTED_CREDENTIAL_TYPE | MISSING_BITSTRING_LIST
  | BASE64_DECODE_ERROR | GZIP_DECODE_ERROR | JWT_PARSE_ERROR | DECOMPRESSION_ERROR
  | INVALID_BIT_INDEX | INVALID_BIT_RANGE
  | UNKNOWN_ERROR

text \<open>The interface \<^verbatim>\<open>DetailedError\<close>; an optional field is an option.\<close>

record DetailedError =
  code :: ErrorCode
  message :: string
  details :: "string option"
  statusCode :: "int option"
  suggestion :: "string option"

text \<open>The interface \<^verbatim>\<open>BitStatus\<close>.\<close>

record BitStatus =
  index :: int
  status :: bool
  purpose :: string

definition createError ::
  "ErrorCode \<Rightarrow> string \<Rightarrow> string option \<Rightarrow> int option \<Rightarrow> string option \<Rightarrow> DetailedError" where
  "createError c m d sc sg =
     \<lparr>code = c, message = m, details = d, statusCode = sc, suggestion = sg\<rparr>"

section \<open>JavaScript primitives the service relies on\<close>

text \<open>
  Number-to-string conversion inside a template literal, for a number that holds an
  integer. Every integer of magnitude up to \<open>2^53\<close> is a number of its own, and
  ECMAScript prints it by its decimal digits, with a leading minus sign when negative.
  Beyond that magnitude a number stands for a whole interval of integers and is printed
  by the shortest digits that identify it, from \<open>10^21\<close> on in exponent notation
  (\<^verbatim>\<open>1e+21\<close>); that text is not computed here but taken as the parameter \<open>large\<close>.

  A bit index can be any such number. The length of a typed array cannot: no engine
  allocates \<open>2^50\<close> bytes, so \<^verbatim>\<open>length * 8 - 1\<close> is computed exactly and printed in
  decimal.
\<close>

fun decimal_digits :: "nat \<Rightarrow> string" where
  "decimal_digits n =
     (if n < 10 then [''0123456789'' ! n]
      else decimal_digits (n div 10) @ [''0123456789'' ! (n mod 10)])"

declare decimal_digits.simps [simp del]

definition decimal :: "int \<Rightarrow> string" where
  "decimal n =
     (if n < 0 then CHR ''-'' # decimal_digits (nat (- n)) else decimal_digits (nat n))"

definition number_to_string :: "(int \<Rightarrow> string) \<Rightarrow> int \<Rightarrow> string" where
  "number_to_string large n = (if \<bar>n\<bar> \<le> 2 ^ 53 then decimal n else large n)"

text \<open>
  The remainder operator \<^verbatim>\<open>%\<close> truncates towards zero: the result has the sign of the
  dividend. \<^verbatim>\<open>Math.floor(a / 8)\<close> on integers is HOL's \<open>div\<close>, which rounds down.
\<close>

definition js_rem :: "int \<Rightarrow> int \<Rightarrow> int" where
  "js_rem a b = sgn a * (\<bar>a\<bar> mod \<bar>b\<bar>)"

text \<open>
  \<^verbatim>\<open>a << n\<close>: the left operand as a 32-bit integer, the shift count taken modulo 32.
  \<^verbatim>\<open>a & b\<close> is the bitwise conjunction of the two 32-bit integers.
\<close>

definition js_shl :: "32 word \<Rightarrow> int \<Rightarrow> 32 word" where
  "js_shl a n = push_bit (nat (n mod 32)) a"

text \<open>
  Reading \<^verbatim>\<open>arr[i]\<close> from a typed array gives \<^verbatim>\<open>undefined\<close> (here \<open>None\<close>) outside
  \<open>0 .. length - 1\<close>; it never throws.
\<close>

definition typed_array_get :: "Uint8Array \<Rightarrow> int \<Rightarrow> byte option" where
  "typed_array_get arr i =
     (if 0 \<le> i \<and> i < int (length arr) then Some (arr ! nat i) else None)"

text \<open>ToInt32 of an array element: a byte is its own value, \<^verbatim>\<open>undefined\<close> is 0.\<close>

definition to_int32 :: "byte option \<Rightarrow> 32 word" where
  "to_int32 v = (case v of None \<Rightarrow> 0 | Some b \<Rightarrow> ucast b)"

section \<open>The bit accessor\<close>

text \<open>\<^verbatim>\<open>BitstringService.getBitStatus\<close>, DetailedError-returning form.\<close>

definition getBitStatus :: "(int \<Rightarrow> string) \<Rightarrow> Uint8Array \<Rightarrow> int \<Rightarrow> DetailedError + bool" where
  "getBitStatus large decodedBits idx =
     (if idx < 0 then
        Inl (createError INVALID_BIT_INDEX ''Invalid bit index''
               (Some (''Bit index must be non-negative, but got '' @ number_to_string large idx @ ''.''))
               None
               (Some ''Use a valid index starting from 0.''))
      else
        let byteIndex = idx div 8;
            bitIndex = js_rem idx 8;
            maxIndex = int (length decodedBits) * 8 - 1
        in if byteIndex \<ge> int (length decodedBits) then
             Inl (createError INVALID_BIT_INDEX ''Bit index out of range''
                    (Some (''Index '' @ number_to_string large idx @ '' exceeds the maximum index ''
                             @ number_to_string large maxIndex @ ''.''))
                    None
                    (Some (''Valid range is 0 to '' @ number_to_string large maxIndex @ ''.'')))
           else
             let byte = typed_array_get decodedBits byteIndex
             in Inr ((to_int32 byte AND js_shl 1 bitIndex) \<noteq> 0))"

text \<open>
  \<^verbatim>\<open>BitstringService.getBitStatus\<close> of \<^verbatim>\<open>src/services/bitstringService.ts\<close>: no check
  for a negative index, and an \<^verbatim>\<open>Error\<close> thrown above the range (\<open>Inl\<close> its message).
\<close>

definition getBitStatus_throwing :: "(int \<Rightarrow> string) \<Rightarrow> Uint8Array \<Rightarrow> int \<Rightarrow> string + bool" where
  "getBitStatus_throwing large decodedBits idx =
     (let byteIndex = idx div 8;
          bitIndex = js_rem idx 8
      in if byteIndex \<ge> int (length decodedBits) then
           Inl (''Index '' @ number_to_string large idx @ '' is out of range (max: ''
                  @ number_to_string large (int (length decodedBits) * 8 - 1) @ '')'')
         else
           let byte = typed_array_get decodedBits byteIndex
           in Inr ((to_int32 byte AND js_shl 1 bitIndex) \<noteq> 0))"

text \<open>
  The loop of \<^verbatim>\<open>getBitRange\<close>: \<^verbatim>\<open>for (let i = startIndex; i <= endIndex; i++)\<close>,
  pushing an entry whenever \<^verbatim>\<open>getBitStatus\<close> answered with a boolean.
\<close>

function getBitRange_loop ::
  "(int \<Rightarrow> string) \<Rightarrow> Uint8Array \<Rightarrow> int \<Rightarrow> int \<Rightarrow> BitStatus list \<Rightarrow> BitStatus list" where
  "getBitRange_loop large decodedBits i endIndex result =
     (if i \<le> endIndex then
        getBitRange_loop large decodedBits (i + 1) endIndex
          (case getBitStatus large decodedBits i of
             Inr bitStatus \<Rightarrow>
               result @ [\<lparr>index = i, status = bitStatus, purpose = ''revocation''\<rparr>]
           | Inl e \<Rightarrow> result)
      else result)"
  by pat_completeness auto
termination
  by (relation "measure (\<lambda>(large, decodedBits, i, endIndex, result). nat (endIndex + 1 - i))") auto

declare getBitRange_loop.simps [simp del]

text \<open>\<^verbatim>\<open>BitstringService.getBitRange\<close>, DetailedError-returning form.\<close>

definition getBitRange ::
  "(int \<Rightarrow> string) \<Rightarrow> Uint8Array \<Rightarrow> int \<Rightarrow> int \<Rightarrow> DetailedError + BitStatus list" where
  "getBitRange large decodedBits startIndex endIndex =
     (if startIndex < 0 then
        Inl (createError INVALID_BIT_RANGE ''Invalid start index''
               (Some (''Start index must be non-negative, but got ''
                        @ number_to_string large startIndex @ ''.''))
               None
               (Some ''Use a valid start index starting from 0.''))
      else if endIndex < startIndex then
        Inl (createError INVALID_BIT_RANGE ''Invalid bit range''
               (Some (''End index ('' @ number_to_string large endIndex
                        @ '') must be greater than or equal to start index (''
                        @ number_to_string large startIndex @ '').''))
               None
               (Some ''Ensure the end index is not less than the start index.''))
      else
        let maxIndex = int (length decodedBits) * 8 - 1
        in if startIndex > maxIndex then
             Inl (createError INVALID_BIT_RANGE ''Start index out of range''
                    (Some (''Start index '' @ number_to_string large startIndex
                             @ '' exceeds the maximum index '' @ number_to_string large maxIndex @ ''.''))
                    None
                    (Some (''Valid range is 0 to '' @ number_to_string large maxIndex @ ''.'')))
           else if endIndex > maxIndex then
             Inl (createError INVALID_BIT_RANGE ''End index out of range''
                    (Some (''End index '' @ number_to_string large endIndex
                             @ '' exceeds the maximum index '' @ number_to_string large maxIndex @ ''.''))
                    None
                    (Some (''Valid range is 0 to '' @ number_to_string large maxIndex @ ''.'')))
           else
             let rangeSize = endIndex - startIndex + 1
             in if rangeSize > 10000 then
                  Inl (createError INVALID_BIT_RANGE ''Range too large''
                         (Some (''Range size ('' @ number_to_string large rangeSize
                                  @ '') is too large. Maximum allowed is 10000 bits.''))
                         None
                         (Some ''Try a smaller range or check specific bits individually.''))
                else Inr (getBitRange_loop large decodedBits startIndex endIndex []))"

section \<open>Values of the JavaScript runtime\<close>

text \<open>
  A thrown value: an \<^verbatim>\<open>Error\<close> instance with its message, or anything else (a library
  may throw a bare string). \<^verbatim>\<open>e instanceof Error ? e.message : dflt\<close> is
  \<open>thrown_message e dflt\<close>.
\<close>

datatype js_thrown = Thrown_Error string | Thrown_Other

definition thrown_message :: "js_thrown \<Rightarrow> string \<Rightarrow> string" where
  "thrown_message e dflt = (case e of Thrown_Error m \<Rightarrow> m | Thrown_Other \<Rightarrow> dflt)"

text \<open>
  What \<^verbatim>\<open>JSON.parse\<close> and \<^verbatim>\<open>response.json()\<close> produce, together with
  \<^verbatim>\<open>undefined\<close> (the value of a property that is not there). The service only tests a
  JSON number for truthiness and prints it, so a number is kept as its ECMAScript
  rendering (\<open>''0''\<close> for both zeros). An object is the list of its own properties.
\<close>

datatype jsval =
    JUndefined
  | JNull
  | JBool bool
  | JNum string
  | JStr string
  | JArr "jsval list"
  | JObj "(string \<times> jsval) list"

text \<open>\<^verbatim>\<open>!v\<close> is \<open>\<not> truthy v\<close>.\<close>

fun truthy :: "jsval \<Rightarrow> bool" where
  "truthy JUndefined = False"
| "truthy JNull = False"
| "truthy (JBool b) = b"
| "truthy (JNum r) = (r \<noteq> ''0'' \<and> r \<noteq> ''NaN'')"
| "truthy (JStr s) = (s \<noteq> [])"
| "truthy (JArr xs) = True"
| "truthy (JObj kvs) = True"

fun join_with :: "string \<Rightarrow> string list \<Rightarrow> string" where
  "join_with sep [] = []"
| "join_with sep [x] = x"
| "join_with sep (x # y # ys) = x @ sep @ join_with sep (y # ys)"

text \<open>The results of a list of conversions, up to the first that throws.\<close>

fun first_thrown :: "(js_thrown + 'a) list \<Rightarrow> js_thrown + 'a list" where
  "first_thrown [] = Inr []"
| "first_thrown (Inl thrown # rs) = Inl thrown"
| "first_thrown (Inr x # rs) =
     (case first_thrown rs of Inl thrown \<Rightarrow> Inl thrown | Inr xs \<Rightarrow> Inr (x # xs))"

text \<open>
  String conversion of a value inside a template literal. An array is joined with commas,
  \<^verbatim>\<open>null\<close> and \<^verbatim>\<open>undefined\<close> elements giving the empty string. An object is
  converted through its \<^verbatim>\<open>toString\<close>: the inherited one answers
  \<^verbatim>\<open>[object Object]\<close>, but an own property of that name, which in a parsed document is
  never a function, hides it, and then neither it nor \<^verbatim>\<open>valueOf\<close> gives a primitive
  and the conversion throws a TypeError (V8's wording).
\<close>

fun js_to_string :: "jsval \<Rightarrow> js_thrown + string" where
  "js_to_string JUndefined = Inr ''undefined''"
| "js_to_string JNull = Inr ''null''"
| "js_to_string (JBool b) = Inr (if b then ''true'' else ''false'')"
| "js_to_string (JNum r) = Inr r"
| "js_to_string (JStr s) = Inr s"
| "js_to_string (JArr xs) =
     (case first_thrown
             (map (\<lambda>x. if x = JUndefined \<or> x = JNull then Inr [] else js_to_string x) xs) of
        Inl thrown \<Rightarrow> Inl thrown
      | Inr parts \<Rightarrow> Inr (join_with '','' parts))"
| "js_to_string (JObj kvs) =
     (case map_of kvs ''toString'' of
        None \<Rightarrow> Inr ''[object Object]''
      | Some v \<Rightarrow> Inl (Thrown_Error ''Cannot convert object to primitive value''))"

text \<open>
  Reading \<^verbatim>\<open>v.name\<close>, for the property names the service reads (\<^verbatim>\<open>type\<close>,
  \<^verbatim>\<open>id\<close>, \<^verbatim>\<open>credentialSubject\<close>, \<^verbatim>\<open>encodedList\<close>; none of them is a built-in
  property of a string, number, boolean or array). On \<^verbatim>\<open>null\<close> and \<^verbatim>\<open>undefined\<close>
  the read throws a TypeError, whose message is given in V8's wording.
\<close>

definition get_prop :: "jsval \<Rightarrow> string \<Rightarrow> js_thrown + jsval" where
  "get_prop v name =
     (case v of
        JUndefined \<Rightarrow>
          Inl (Thrown_Error (''Cannot read properties of undefined (reading ''
                               @ [CHR 0x27] @ name @ [CHR 0x27] @ '')''))
      | JNull \<Rightarrow>
          Inl (Thrown_Error (''Cannot read properties of null (reading ''
                               @ [CHR 0x27] @ name @ [CHR 0x27] @ '')''))
      | JObj kvs \<Rightarrow> (case map_of kvs name of Some x \<Rightarrow> Inr x | None \<Rightarrow> Inr JUndefined)
      | _ \<Rightarrow> Inr JUndefined)"

text \<open>
  The library and platform functions the service calls and this repository does not
  contain; they are parameters of the model. \<open>Inl\<close> is the thrown value.
  \<^item> \<open>toBuffer\<close>: \<^verbatim>\<open>base64url.toBuffer\<close>, applied to the run-time value it is given;
  \<^item> \<open>atob\<close>: the platform's Base64 decoder, giving a binary string;
  \<^item> \<open>inflate\<close>: pako's \<^verbatim>\<open>inflate(data, {raw})\<close>, the flag being \<^verbatim>\<open>raw\<close>;
  \<^item> \<open>JSON_parse\<close>: \<^verbatim>\<open>JSON.parse\<close>.
\<close>

record libs =
  toBuffer :: "jsval \<Rightarrow> js_thrown + Uint8Array"
  atob :: "string \<Rightarrow> js_thrown + string"
  inflate :: "bool \<Rightarrow> Uint8Array \<Rightarrow> js_thrown + Uint8Array"
  JSON_parse :: "string \<Rightarrow> js_thrown + jsval"

text \<open>
  \<^verbatim>\<open>new Uint8Array(buffer)\<close> on a typed array: a fresh array with the same elements.
  The constructor is written as an operation that may throw, as the source wraps it in
  \<^verbatim>\<open>try\<close>; copying an existing array raises nothing.
\<close>

definition new_Uint8Array :: "Uint8Array \<Rightarrow> js_thrown + Uint8Array" where
  "new_Uint8Array src = Inr src"

section \<open>Decoding the encoded list\<close>

text \<open>\<^verbatim>\<open>s.replace(/-/g, '+').replace(/_/g, '/')\<close>.\<close>

definition url_to_base64 :: "string \<Rightarrow> string" where
  "url_to_base64 s =
     map (\<lambda>c. if c = CHR ''_'' then CHR ''/'' else c)
       (map (\<lambda>c. if c = CHR ''-'' then CHR ''+'' else c) s)"

text \<open>\<^verbatim>\<open>while (base64.length % 4) { base64 += '='; }\<close>\<close>

function pad_loop :: "string \<Rightarrow> string" where
  "pad_loop base64 = (if length base64 mod 4 \<noteq> 0 then pad_loop (base64 @ ''='') else base64)"
  by pat_completeness auto
termination
proof (relation "measure (\<lambda>base64. (4 - length base64 mod 4) mod 4)")
  show "wf (measure (\<lambda>base64. (4 - length base64 mod 4) mod 4))" by simp
next
  fix base64 :: string
  assume a: "length base64 mod 4 \<noteq> 0"
  have "length base64 mod 4 < 4" by simp
  then consider "length base64 mod 4 = 1" | "length base64 mod 4 = 2" | "length base64 mod 4 = 3"
    using a by linarith
  then have "(4 - Suc (length base64) mod 4) mod 4 < (4 - length base64 mod 4) mod 4"
    by cases (simp_all add: mod_Suc)
  then show "(base64 @ ''='', base64) \<in> measure (\<lambda>base64. (4 - length base64 mod 4) mod 4)"
    by simp
qed

declare pad_loop.simps [simp del]

text \<open>\<^verbatim>\<open>b.toString(16).padStart(2, '0')\<close> and the hex dump of the first ten bytes.\<close>

definition hex_byte :: "byte \<Rightarrow> string" where
  "hex_byte b = [''0123456789abcdef'' ! (unat b div 16), ''0123456789abcdef'' ! (unat b mod 16)]"

definition hex_dump :: "Uint8Array \<Rightarrow> string" where
  "hex_dump compressed = join_with '' '' (map hex_byte (take 10 compressed))"

text \<open>
  The first stage of \<^verbatim>\<open>decodeStatusList\<close>: the value of \<^verbatim>\<open>compressed\<close>. The library
  decoder first; when it throws, the manual decoder, which uses string methods of
  \<^verbatim>\<open>encodedList\<close>. On a value that is not a string the call of \<^verbatim>\<open>replace\<close> throws into
  the outer handler, whose \<^verbatim>\<open>encodedList.substring\<close> throws in turn, out of the function
  (\<open>Inl\<close> at the outer level).
\<close>

definition decode_base64url :: "libs \<Rightarrow> jsval \<Rightarrow> js_thrown + (DetailedError + Uint8Array)" where
  "decode_base64url L encodedList =
     (case toBuffer L encodedList of
        Inr compressed \<Rightarrow> Inr (Inr compressed)
      | Inl base64urlError \<Rightarrow>
          (case encodedList of
             JStr s \<Rightarrow>
               (let base64 = pad_loop (url_to_base64 s)
                in case atob L base64 of
                     Inr binaryString \<Rightarrow> Inr (Inr (map of_char binaryString))
                   | Inl atobError \<Rightarrow>
                       Inr (Inl (createError BASE64_DECODE_ERROR
                         ''Failed to decode Base64URL data''
                         (Some (''The encoded list could not be decoded from Base64URL format. ''
                                  @ thrown_message atobError ''Unknown error''))
                         None
                         (Some ''The encoded data may be corrupted or not properly Base64URL encoded.''))))
           | _ \<Rightarrow> Inl (Thrown_Error ''encodedList.substring is not a function'')))"

text \<open>\<^verbatim>\<open>compressed[0] === 0x1f && compressed[1] === 0x8b\<close>; a missing element is
  \<^verbatim>\<open>undefined\<close> and equals neither.\<close>

definition gzip_magic :: "Uint8Array \<Rightarrow> bool" where
  "gzip_magic compressed =
     (typed_array_get compressed 0 = Some 0x1f \<and> typed_array_get compressed 1 = Some 0x8b)"

text \<open>The second stage of \<^verbatim>\<open>decodeStatusList\<close>: choosing and applying the decompression.\<close>

definition resolve_compression :: "libs \<Rightarrow> Uint8Array \<Rightarrow> DetailedError + Uint8Array" where
  "resolve_compression L compressed =
     (let hex = hex_dump compressed
      in if gzip_magic compressed then
           (case inflate L False compressed of
              Inr decompressed \<Rightarrow> Inr decompressed
            | Inl gzipError \<Rightarrow>
                Inl (createError GZIP_DECODE_ERROR ''Failed to decompress GZIP data''
                       (Some (''The GZIP compressed data could not be decompressed. ''
                                @ thrown_message gzipError ''Unknown error''))
                       None
                       (Some ''The compressed data may be corrupted. Try fetching the credential again.'')))
         else
           (case inflate L True compressed of
              Inr decompressed \<Rightarrow> Inr decompressed
            | Inl deflateError \<Rightarrow>
                (case new_Uint8Array compressed of
                   Inr decompressed \<Rightarrow> Inr decompressed
                 | Inl rawError \<Rightarrow>
                     Inl (createError DECOMPRESSION_ERROR ''Failed to decompress data''
                            (Some (''Unable to decompress the encoded list. Tried GZIP and raw deflate. Data header: ''
                                     @ hex))
                            None
                            (Some ''The data may not be compressed or uses an unsupported compression format.'')))))"

text \<open>
  \<^verbatim>\<open>BitstringService.decodeStatusList\<close>. The handler of its outer \<^verbatim>\<open>try\<close>
  (\<^verbatim>\<open>UNKNOWN_ERROR\<close>) is entered only from the manual decoder on a non-string, where it
  throws itself; no other operation inside the outer \<^verbatim>\<open>try\<close> throws past its own handler.
\<close>

definition decodeStatusList :: "libs \<Rightarrow> jsval \<Rightarrow> js_thrown + (DetailedError + Uint8Array)" where
  "decodeStatusList L encodedList =
     (case decode_base64url L encodedList of
        Inl thrown \<Rightarrow> Inl thrown
      | Inr (Inl err) \<Rightarrow> Inr (Inl err)
      | Inr (Inr compressed) \<Rightarrow> Inr (resolve_compression L compressed))"

section \<open>Unwrapping an enveloped credential\<close>

text \<open>The list \<^verbatim>\<open>possiblePrefixes\<close>, in the source's order.\<close>

definition possiblePrefixes :: "string list" where
  "possiblePrefixes =
     [''data:application/vc+jwt,'',
      ''data:application/vc-ld+jwt,'',
      ''data:application/vc+ld+jwt,'',
      ''data:application/jwt,'']"

text \<open>
  The loop over the prefixes: the pair of \<^verbatim>\<open>jwtToken\<close> and \<^verbatim>\<open>prefixFound\<close> after it.
  \<^verbatim>\<open>startsWith\<close> is \<open>prefix\<close>, \<^verbatim>\<open>substring(prefix.length)\<close> is \<open>drop\<close>, and
  \<^verbatim>\<open>break\<close> ends the recursion.
\<close>

fun strip_prefix_loop :: "string list \<Rightarrow> string \<Rightarrow> string \<times> bool" where
  "strip_prefix_loop [] jwtToken = (jwtToken, False)"
| "strip_prefix_loop (p # ps) jwtToken =
     (if prefix p jwtToken then (drop (length p) jwtToken, True)
      else strip_prefix_loop ps jwtToken)"

text \<open>\<^verbatim>\<open>s.split(sep)\<close> for a one-character separator.\<close>

fun split_on :: "char \<Rightarrow> string \<Rightarrow> string list" where
  "split_on sep [] = [[]]"
| "split_on sep (c # cs) =
     (if c = sep then [] # split_on sep cs
      else (case split_on sep cs of
              [] \<Rightarrow> [[c]]
            | part # parts \<Rightarrow> (c # part) # parts))"

text \<open>
  \<^verbatim>\<open>decodeEnvelopedCredential\<close> from the test of the stripped token to its last
  \<^verbatim>\<open>return\<close>. \<open>Inl\<close> at the outer level is an exception on its way to the handler of
  the enclosing \<^verbatim>\<open>try\<close>.
\<close>

definition decode_jwt_token :: "libs \<Rightarrow> string \<Rightarrow> js_thrown + (DetailedError + jsval)" where
  "decode_jwt_token L jwtToken =
     (if jwtToken = [] then
        Inr (Inl (createError JWT_PARSE_ERROR ''Empty JWT token''
                    (Some ''The JWT token is empty after removing the data URL prefix.'')
                    None
                    (Some ''The credential format is invalid.'')))
      else
        let parts = split_on CHR ''.'' jwtToken
        in if length parts \<noteq> 3 then
             Inr (Inl (createError JWT_PARSE_ERROR ''Invalid JWT structure''
                         (Some (''JWT must have 3 parts (header.payload.signature), but found ''
                                  @ decimal (int (length parts)) @ '' parts.''))
                         None
                         (Some ''The JWT token is malformed or corrupted.'')))
           else
             let payload = parts ! 1
             in if payload = [] then
                  Inr (Inl (createError JWT_PARSE_ERROR ''Empty JWT payload''
                              (Some ''The JWT payload section is empty.'')
                              None
                              (Some ''The JWT token is corrupted.'')))
                else
                  let paddedPayload =
                        payload @ replicate ((4 - length payload mod 4) mod 4) CHR ''=''
                  in case atob L (url_to_base64 paddedPayload) of
                       Inl base64Error \<Rightarrow>
                         Inr (Inl (createError BASE64_DECODE_ERROR ''Failed to decode JWT payload''
                                     (Some (''Could not decode the JWT payload from Base64. ''
                                              @ thrown_message base64Error ''Unknown error''))
                                     None
                                     (Some ''The JWT payload is not valid Base64 encoded data.'')))
                     | Inr decodedPayload \<Rightarrow>
                         (case JSON_parse L decodedPayload of
                            Inl jsonError \<Rightarrow>
                              Inr (Inl (createError INVALID_JSON ''Invalid JWT payload JSON''
                                          (Some (''The JWT payload is not valid JSON. ''
                                                   @ thrown_message jsonError ''Unknown error''))
                                          None
                                          (Some ''The JWT contains malformed data.'')))
                          | Inr credentialData \<Rightarrow>
                              (case get_prop credentialData ''credentialSubject'' of
                                 Inl thrown \<Rightarrow> Inl thrown
                               | Inr subject \<Rightarrow>
                                   if \<not> truthy subject then
                                     Inr (Inl (createError INVALID_CREDENTIAL_FORMAT
                                                 ''Invalid credential in JWT''
                                                 (Some ''The decoded JWT does not contain a valid StatusListCredential.'')
                                                 None
                                                 (Some ''The JWT payload does not match the expected credential format.'')))
                                   else Inr (Inr credentialData))))"

text \<open>
  The body of the \<^verbatim>\<open>try\<close> of \<^verbatim>\<open>decodeEnvelopedCredential\<close>. An \<^verbatim>\<open>id\<close> that is
  truthy without being a string has no method \<^verbatim>\<open>startsWith\<close>: the call throws a
  TypeError (V8's wording).
\<close>

definition decodeEnvelopedCredential_try :: "libs \<Rightarrow> jsval \<Rightarrow> js_thrown + (DetailedError + jsval)" where
  "decodeEnvelopedCredential_try L envelopedCred =
     (case get_prop envelopedCred ''id'' of
        Inl thrown \<Rightarrow> Inl thrown
      | Inr ident \<Rightarrow>
          if \<not> truthy ident then
            Inr (Inl (createError JWT_PARSE_ERROR ''Missing JWT token''
                        (Some ''The EnvelopedVerifiableCredential does not contain an id field with the JWT.'')
                        None
                        (Some ''The credential format is invalid.'')))
          else
            (case ident of
               JStr s \<Rightarrow>
                 (case strip_prefix_loop possiblePrefixes s of
                    (jwtToken, prefixFound) \<Rightarrow>
                      if \<not> prefixFound then
                        Inr (Inl (createError JWT_PARSE_ERROR ''Invalid JWT format''
                                    (Some (''The id field does not contain a valid JWT token with a recognized prefix. Got: ''
                                             @ [CHR 0x22] @ take 50 s @ ''...'' @ [CHR 0x22]))
                                    None
                                    (Some (''Expected format: '' @ [CHR 0x22]
                                             @ ''data:application/vc+jwt,{JWT_TOKEN}'' @ [CHR 0x22]
                                             @ '' or similar''))))
                      else decode_jwt_token L jwtToken)
             | _ \<Rightarrow> Inl (Thrown_Error ''jwtToken.startsWith is not a function'')))"

text \<open>\<^verbatim>\<open>BitstringService.decodeEnvelopedCredential\<close>: the body and its handler.\<close>

definition decodeEnvelopedCredential :: "libs \<Rightarrow> jsval \<Rightarrow> DetailedError + jsval" where
  "decodeEnvelopedCredential L envelopedCred =
     (case decodeEnvelopedCredential_try L envelopedCred of
        Inr r \<Rightarrow> r
      | Inl thrown \<Rightarrow>
          Inl (createError UNKNOWN_ERROR ''Failed to decode enveloped credential''
                 (Some (thrown_message thrown ''Unknown error''))
                 None
                 (Some ''An unexpected error occurred while decoding the JWT.'')))"

section \<open>Validation and assembly in \<^verbatim>\<open>fetchStatusList\<close>\<close>

datatype CredentialType = embedded | enveloped

text \<open>The interfaces \<^verbatim>\<open>DecodedStatusList\<close> and \<^verbatim>\<open>StatusListResult\<close>.\<close>

record DecodedStatusList =
  credential :: jsval
  bitstringList :: jsval
  decodedBits :: Uint8Array
  totalBits :: int
  credentialType :: CredentialType
  originalEnvelopedCredential :: "jsval option"

record StatusListResult =
  success :: bool
  data :: "DecodedStatusList option"
  error :: "DetailedError option"

definition failure :: "DetailedError \<Rightarrow> StatusListResult" where
  "failure e = \<lparr>success = False, data = None, error = Some e\<rparr>"

text \<open>
  \<^verbatim>\<open>fetchStatusList\<close> from \<^verbatim>\<open>const bitstringList = statusListCredential.credentialSubject\<close>
  to the successful \<^verbatim>\<open>return\<close>: the three checks on the subject, then the decoding, then
  the result record. \<open>Inl\<close> is an exception on its way to the handler of
  \<^verbatim>\<open>fetchStatusList\<close>; the template literal that prints the type found can raise one.
\<close>

definition validate_and_decode ::
  "libs \<Rightarrow> jsval \<Rightarrow> CredentialType \<Rightarrow> jsval option \<Rightarrow> js_thrown + StatusListResult" where
  "validate_and_decode L statusListCredential ctype original =
     (case get_prop statusListCredential ''credentialSubject'' of
        Inl thrown \<Rightarrow> Inl thrown
      | Inr bl \<Rightarrow>
          if \<not> truthy bl then
            Inr (failure (createError MISSING_BITSTRING_LIST ''Missing BitstringStatusList''
                            (Some ''The credential does not contain a credentialSubject field.'')
                            None
                            (Some (''The credential structure is invalid. Verify it'' @ [CHR 0x27]
                                     @ ''s a status list credential.''))))
          else
            (case get_prop bl ''type'' of
               Inl thrown \<Rightarrow> Inl thrown
             | Inr ty \<Rightarrow>
                 if ty \<noteq> JStr ''BitstringStatusList'' then
                   (case js_to_string ty of
                      Inl thrown \<Rightarrow> Inl thrown
                    | Inr found \<Rightarrow>
                        Inr (failure (createError INVALID_CREDENTIAL_FORMAT
                                        ''Invalid BitstringStatusList''
                                        (Some (''Expected type '' @ [CHR 0x22]
                                                 @ ''BitstringStatusList'' @ [CHR 0x22]
                                                 @ '' but got '' @ [CHR 0x22] @ found
                                                 @ [CHR 0x22] @ ''.''))
                                        None
                                        (Some ''The credential is not a valid Bitstring Status List credential.''))))
                 else
                   (case get_prop bl ''encodedList'' of
                      Inl thrown \<Rightarrow> Inl thrown
                    | Inr encodedList \<Rightarrow>
                        if \<not> truthy encodedList then
                          Inr (failure (createError INVALID_CREDENTIAL_FORMAT ''Missing encoded list''
                                          (Some ''The BitstringStatusList does not contain an encodedList field.'')
                                          None
                                          (Some ''The status list credential is incomplete or corrupted.'')))
                        else
                          (case decodeStatusList L encodedList of
                             Inl thrown \<Rightarrow> Inl thrown
                           | Inr (Inl err) \<Rightarrow> Inr (failure err)
                           | Inr (Inr bits) \<Rightarrow>
                               Inr \<lparr>success = True,
                                    data = Some \<lparr>credential = statusListCredential,
                                                 bitstringList = bl,
                                                 decodedBits = bits,
                                                 totalBits = int (length bits) * 8,
                                                 credentialType = ctype,
                                                 originalEnvelopedCredential = original\<rparr>,
                                    error = None\<rparr>))))"

text \<open>
  \<^verbatim>\<open>fetchStatusList\<close> once the response body has been parsed into \<open>cred\<close>: the test of
  \<^verbatim>\<open>credential.type\<close>, the choice between the enveloped and the embedded shape, the
  stage above, and the handler of the outer \<^verbatim>\<open>try\<close>. The network stage before it
  belongs to the host's \<^verbatim>\<open>fetch\<close>.
\<close>

definition fetchStatusList_parsed :: "libs \<Rightarrow> jsval \<Rightarrow> StatusListResult" where
  "fetchStatusList_parsed L cred =
     (case (case get_prop cred ''type'' of
              Inl thrown \<Rightarrow> Inl thrown
            | Inr ty \<Rightarrow>
                if \<not> truthy ty then
                  Inr (failure (createError MISSING_CREDENTIAL_TYPE ''Invalid credential format''
                                  (Some (''The credential is missing the required '' @ [CHR 0x22]
                                           @ ''type'' @ [CHR 0x22] @ '' field.''))
                                  None
                                  (Some ''Ensure the URL points to a valid verifiable credential.'')))
                else if ty = JStr ''EnvelopedVerifiableCredential'' then
                  (case decodeEnvelopedCredential L cred of
                     Inl err \<Rightarrow> Inr (failure err)
                   | Inr statusListCredential \<Rightarrow>
                       validate_and_decode L statusListCredential enveloped (Some cred))
                else
                  (case ty of
                     JArr xs \<Rightarrow> validate_and_decode L cred embedded None
                   | JStr s \<Rightarrow> validate_and_decode L cred embedded None
                   | _ \<Rightarrow>
                       (case js_to_string ty of
                          Inl thrown \<Rightarrow> Inl thrown
                        | Inr found \<Rightarrow>
                            Inr (failure (createError UNSUPPORTED_CREDENTIAL_TYPE
                                            ''Unsupported credential type''
                                            (Some (''Credential type '' @ [CHR 0x22] @ found
                                                     @ [CHR 0x22] @ '' is not supported.''))
                                            None
                                            (Some (''Expected '' @ [CHR 0x22]
                                                     @ ''EnvelopedVerifiableCredential'' @ [CHR 0x22]
                                                     @ '' or a standard credential with embedded proof.''))))))) of
        Inr r \<Rightarrow> r
      | Inl thrown \<Rightarrow>
          failure (createError UNKNOWN_ERROR ''An unexpected error occurred''
                     (Some (thrown_message thrown ''Unknown error''))
                     None
                     (Some ''Please try again or report this issue if it persists.'')))"

text \<open>
  The bit accessor as the specification words it:
  \<^verbatim>\<open>(B[floor(i/8)] >> (i mod 8)) & 1 != 0\<close>, bit 0 of a byte being its least significant.
\<close>

definition spec_bit :: "Uint8Array \<Rightarrow> int \<Rightarrow> bool" where
  "spec_bit B i = ((drop_bit (nat (i mod 8)) (B ! nat (i div 8)) AND 1) \<noteq> 0)"

section \<open>Concrete inputs for the examples\<close>

text \<open>
  One choice of the library functions, for evaluating the model on concrete inputs: a
  Base64URL decoder that returns the character codes of a string and throws on anything
  else, an \<^verbatim>\<open>atob\<close> that returns its argument, an \<^verbatim>\<open>inflate\<close> that always throws
  a non-Error value, and a \<^verbatim>\<open>JSON.parse\<close> that wraps its input as the subject's type.
\<close>

definition example_libs :: libs where
  "example_libs =
     \<lparr>toBuffer = (\<lambda>v. case v of JStr s \<Rightarrow> Inr (map of_char s) | _ \<Rightarrow> Inl Thrown_Other),
      atob = (\<lambda>s. Inr s),
      inflate = (\<lambda>raw bytes. Inl Thrown_Other),
      JSON_parse = (\<lambda>s. Inr (JObj [(''credentialSubject'', JObj [(''type'', JStr s), (''encodedList'', JStr ''abc'')])]))\<rparr>"

text \<open>The print of a number beyond \<open>2^53\<close>, for the one such number the examples use.\<close>

definition example_large :: "int \<Rightarrow> string" where
  "example_large n = ''1e+21''"

text \<open>An embedded-proof credential whose subject has the given type and encoded list.\<close>

definition example_credential :: "jsval \<Rightarrow> jsval \<Rightarrow> jsval" where
  "example_credential ty enc =
     JObj [(''type'', JArr [JStr ''VerifiableCredential'']),
           (''credentialSubject'', JObj [(''type'', ty), (''encodedList'', enc)])]"

section \<open>Properties of the bit accessor\<close>

subsection \<open>Bit arithmetic\<close>

lemma bit_test_code:
  fixes b :: byte
  assumes "n < 8"
  shows "((ucast b :: 32 word) AND push_bit n 1 \<noteq> 0) = bit b n"
  using assms by (simp add: and_exp_eq_0_iff_not_bit bit_ucast_iff)

lemma bit_test_spec:
  fixes b :: byte
  shows "((drop_bit n b AND 1) \<noteq> 0) = bit b n"
  by (simp add: and_one_eq bit_iff_odd_drop_bit odd_iff_mod_2_eq_one)

lemma js_rem_nonneg: "0 \<le> a \<Longrightarrow> js_rem a 8 = a mod 8"
  by (cases "a = 0") (simp_all add: js_rem_def)

lemma code_bit_eq_spec_bit:
  assumes "0 \<le> i" "i \<le> 8 * int (length B) - 1"
  shows "((to_int32 (typed_array_get B (i div 8)) AND js_shl 1 (js_rem i 8)) \<noteq> 0) = spec_bit B i"
proof -
  have r: "js_rem i 8 = i mod 8" using assms(1) by (rule js_rem_nonneg)
  have d: "0 \<le> i div 8" "i div 8 < int (length B)" using assms by auto
  have m: "nat ((i mod 8) mod 32) = nat (i mod 8)" "nat (i mod 8) < 8"
    by (auto simp: nat_less_iff)
  show ?thesis
    using d m
    by (simp add: r typed_array_get_def to_int32_def js_shl_def spec_bit_def
        bit_test_code bit_test_spec del: push_bit_of_1)
qed

lemma getBitStatus_Inr:
  assumes "0 \<le> i" "i \<le> 8 * int (length B) - 1"
  shows "getBitStatus large B i = Inr (spec_bit B i)"
proof -
  have "\<not> i div 8 \<ge> int (length B)" using assms by auto
  then show ?thesis
    using assms code_bit_eq_spec_bit [OF assms]
    by (simp add: getBitStatus_def Let_def)
qed

lemma getBitStatus_throwing_Inr:
  assumes "0 \<le> i" "i \<le> 8 * int (length B) - 1"
  shows "getBitStatus_throwing large B i = Inr (spec_bit B i)"
proof -
  have "\<not> i div 8 \<ge> int (length B)" using assms by auto
  then show ?thesis
    using assms code_bit_eq_spec_bit [OF assms]
    by (simp add: getBitStatus_throwing_def Let_def)
qed

lemmas bit_eval =
  getBitStatus_def getBitStatus_throwing_def createError_def
  number_to_string_def decimal_def decimal_digits.simps js_rem_def js_shl_def typed_array_get_def
  to_int32_def spec_bit_def Let_def

subsection \<open>Single bits\<close>

text \<open>
  C1. For every byte array \<open>B\<close> and every index \<open>i\<close> with \<open>0 \<le> i \<le> 8 * length B - 1\<close>,
  \<^verbatim>\<open>getBitStatus(B, i)\<close> returns the boolean
  \<^verbatim>\<open>((B[floor(i/8)] >> (i mod 8)) & 1) != 0\<close>: bit \<open>i mod 8\<close> of byte \<open>i div 8\<close>, bit 0
  being the least significant.
\<close>

theorem getBitStatus_in_range:
  assumes "0 \<le> i" "i \<le> 8 * int (length B) - 1"
  shows "getBitStatus large B i = Inr (spec_bit B i)
       \<and> spec_bit B i = bit (B ! nat (i div 8)) (nat (i mod 8))"
  using getBitStatus_Inr [OF assms] by (simp add: spec_bit_def bit_test_spec)

theorem getBitStatus_in_range_witness:
  "(0::int) \<le> 10 \<and> (10::int) \<le> 8 * int (length [5, 4 :: byte]) - 1
   \<and> getBitStatus example_large [5, 4] 10 = Inr True \<and> spec_bit [5, 4] 10
   \<and> bit ([5, 4 :: byte] ! nat (10 div 8)) (nat (10 mod 8))"
  using getBitStatus_in_range [of 10 "[5, 4]" example_large] by (simp add: spec_bit_def)

text \<open>
  C3, as the code has it. For every byte array \<open>B\<close> and every index \<open>i\<close> with \<open>i < 0\<close> or
  \<open>i \<ge> 8 * length B\<close>, \<^verbatim>\<open>getBitStatus(B, i)\<close> returns a DetailedError with code
  \<^verbatim>\<open>INVALID_BIT_INDEX\<close>, never a boolean. Above the range the \<^verbatim>\<open>message\<close> field is the
  fixed text \<^verbatim>\<open>Bit index out of range\<close>; it is the \<^verbatim>\<open>details\<close> field that states the
  maximum valid index \<open>8 * length B - 1\<close>, after the index itself, each as JavaScript
  prints the number: the maximum in decimal (for every array below \<open>2^50\<close> bytes), the
  index in decimal up to \<open>2^53\<close> and in the engine's form for large numbers beyond.
\<close>

theorem getBitStatus_out_of_range:
  assumes "i < 0 \<or> i \<ge> 8 * int (length B)"
  shows "\<exists>err. getBitStatus large B i = Inl err \<and> code err = INVALID_BIT_INDEX
           \<and> (i \<ge> 8 * int (length B) \<longrightarrow>
                message err = ''Bit index out of range''
              \<and> details err = Some (''Index '' @ number_to_string large i
                    @ '' exceeds the maximum index ''
                    @ number_to_string large (8 * int (length B) - 1) @ ''.'')
              \<and> (8 * int (length B) - 1 \<le> 2 ^ 53 \<longrightarrow>
                    number_to_string large (8 * int (length B) - 1)
                      = decimal (8 * int (length B) - 1))
              \<and> (i \<le> 2 ^ 53 \<longrightarrow> number_to_string large i = decimal i)
              \<and> (i > 2 ^ 53 \<longrightarrow> number_to_string large i = large i))"
proof (cases "i < 0")
  case True
  then show ?thesis by (simp add: getBitStatus_def createError_def)
next
  case False
  with assms have "i div 8 \<ge> int (length B)" by auto
  moreover have "8 * int (length B) - 1 \<le> 2 ^ 53 \<longrightarrow>
      number_to_string large (8 * int (length B) - 1) = decimal (8 * int (length B) - 1)"
  proof
    assume "8 * int (length B) - 1 \<le> 2 ^ 53"
    then have "\<bar>8 * int (length B) - 1\<bar> \<le> 2 ^ 53"
      by (simp add: abs_le_iff)
    then show "number_to_string large (8 * int (length B) - 1) = decimal (8 * int (length B) - 1)"
      by (simp add: number_to_string_def)
  qed
  moreover have "i \<le> 2 ^ 53 \<longrightarrow> number_to_string large i = decimal i"
    using False by (simp add: number_to_string_def)
  moreover have "i > 2 ^ 53 \<longrightarrow> number_to_string large i = large i"
    by (simp add: number_to_string_def)
  ultimately show ?thesis
    using False by (simp add: getBitStatus_def createError_def Let_def mult.commute)
qed

theorem getBitStatus_out_of_range_witness:
  "((16::int) < 0 \<or> 16 \<ge> 8 * int (length [5, 4 :: byte]))
   \<and> (\<exists>err. getBitStatus example_large [5, 4] 16 = Inl err \<and> code err = INVALID_BIT_INDEX
         \<and> message err = ''Bit index out of range''
         \<and> details err = Some ''Index 16 exceeds the maximum index 15.'')
   \<and> ((10 ^ 21 :: int) < 0 \<or> 10 ^ 21 \<ge> 8 * int (length [0 :: byte]))
   \<and> (\<exists>err. getBitStatus example_large [0] (10 ^ 21) = Inl err \<and> code err = INVALID_BIT_INDEX
         \<and> message err = ''Bit index out of range''
         \<and> details err = Some ''Index 1e+21 exceeds the maximum index 7.'')"
  using getBitStatus_out_of_range [of 16 "[5, 4]" example_large]
    getBitStatus_out_of_range [of "10 ^ 21" "[0]" example_large]
  by (simp add: number_to_string_def decimal_def decimal_digits.simps example_large_def)

text \<open>
  C3 as the specification words it fails: for the one-byte array \<open>[0]\<close> and index 8 the
  \<^verbatim>\<open>message\<close> of the returned error is \<^verbatim>\<open>Bit index out of range\<close>, in which the
  maximum valid index 7 does not occur.
\<close>

theorem getBitStatus_message_counterexample:
  "map_sum message id (getBitStatus example_large [0] 8) = Inl ''Bit index out of range''
   \<and> \<not> sublist (decimal (8 * int (length [0 :: byte]) - 1)) ''Bit index out of range''"
  by code_simp

text \<open>
  C10. The exception-throwing \<^verbatim>\<open>getBitStatus\<close> and the DetailedError-returning one
  agree on every in-range query: for \<open>0 \<le> i \<le> 8 * length B - 1\<close> both return the same
  boolean.
\<close>

theorem getBitStatus_variants_agree:
  assumes "0 \<le> i" "i \<le> 8 * int (length B) - 1"
  shows "\<exists>b. getBitStatus_throwing large B i = Inr b \<and> getBitStatus large B i = Inr b"
  using getBitStatus_throwing_Inr [OF assms] getBitStatus_Inr [OF assms] by simp

theorem getBitStatus_variants_agree_witness:
  "(0::int) \<le> 15 \<and> (15::int) \<le> 8 * int (length [5, 128 :: byte]) - 1
   \<and> (\<exists>b. getBitStatus_throwing example_large [5, 128] 15 = Inr b \<and> getBitStatus example_large [5, 128] 15 = Inr b)"
  using getBitStatus_variants_agree [of 15 "[5, 128]" example_large] by simp

subsection \<open>Ranges\<close>

lemma getBitRange_loop_eq:
  "0 \<le> i \<Longrightarrow> e \<le> 8 * int (length B) - 1 \<Longrightarrow>
   getBitRange_loop large B i e acc =
     acc @ map (\<lambda>k. \<lparr>index = k, status = spec_bit B k, purpose = ''revocation''\<rparr>) [i..e]"
proof (induction large B i e acc rule: getBitRange_loop.induct)
  case (1 large B i e acc)
  show ?case
  proof (cases "i \<le> e")
    case True
    then have s: "getBitStatus large B i = Inr (spec_bit B i)"
      using "1.prems" by (intro getBitStatus_Inr) auto
    have "getBitRange_loop large B i e acc =
          getBitRange_loop large B (i + 1) e
            (acc @ [\<lparr>index = i, status = spec_bit B i, purpose = ''revocation''\<rparr>])"
      using True by (subst getBitRange_loop.simps) (simp add: s)
    also have "\<dots> = (acc @ [\<lparr>index = i, status = spec_bit B i, purpose = ''revocation''\<rparr>])
          @ map (\<lambda>k. \<lparr>index = k, status = spec_bit B k, purpose = ''revocation''\<rparr>) [i + 1..e]"
      using "1.IH" [OF True] True "1.prems" by (simp add: s)
    also have "\<dots> = acc @ map (\<lambda>k. \<lparr>index = k, status = spec_bit B k, purpose = ''revocation''\<rparr>) [i..e]"
      using True by (simp add: upto_rec1 [of i e])
    finally show ?thesis .
  next
    case False
    then show ?thesis by (subst getBitRange_loop.simps) simp
  qed
qed

lemma getBitRange_Inr:
  assumes "0 \<le> s" "s \<le> e" "e \<le> 8 * int (length B) - 1" "e - s + 1 \<le> 10000"
  shows "getBitRange large B s e =
    Inr (map (\<lambda>k. \<lparr>index = k, status = spec_bit B k, purpose = ''revocation''\<rparr>) [s..e])"
  using assms by (simp add: getBitRange_def Let_def getBitRange_loop_eq)

lemma getBitRange_error_iff:
  "(\<exists>err. getBitRange large B s e = Inl err) \<longleftrightarrow>
     (s < 0 \<or> e < s \<or> s > 8 * int (length B) - 1 \<or> e > 8 * int (length B) - 1 \<or> e - s + 1 > 10000)"
  by (auto simp: getBitRange_def Let_def)

lemma getBitRange_error_code:
  "getBitRange large B s e = Inl err \<Longrightarrow> code err = INVALID_BIT_RANGE"
  by (auto simp: getBitRange_def Let_def createError_def split: if_splits)

text \<open>
  C2. For \<open>0 \<le> start \<le> end \<le> 8 * length B - 1\<close> and \<open>end - start + 1 \<le> 10000\<close>,
  \<^verbatim>\<open>getBitRange(B, start, end)\<close> returns a list of exactly \<open>end - start + 1\<close> entries,
  whose indices are \<open>start, start + 1, \<dots>, end\<close> in ascending order, and whose
  \<^verbatim>\<open>status\<close> at each index equals what \<^verbatim>\<open>getBitStatus\<close> returns there.
\<close>

theorem getBitRange_in_range:
  assumes "0 \<le> s" "s \<le> e" "e \<le> 8 * int (length B) - 1" "e - s + 1 \<le> 10000"
  shows "\<exists>xs. getBitRange large B s e = Inr xs
           \<and> int (length xs) = e - s + 1
           \<and> map index xs = [s..e]
           \<and> (\<forall>k < length xs. getBitStatus large B (index (xs ! k)) = Inr (status (xs ! k)))"
proof -
  let ?f = "\<lambda>k. \<lparr>index = k, status = spec_bit B k, purpose = ''revocation''\<rparr>"
  have r: "getBitRange large B s e = Inr (map ?f [s..e])"
    using assms by (rule getBitRange_Inr)
  have l: "int (length (map ?f [s..e])) = e - s + 1"
    using assms by simp
  have i: "map index (map ?f [s..e]) = [s..e]"
    by (simp add: comp_def)
  have g: "getBitStatus large B (index (map ?f [s..e] ! k)) = Inr (status (map ?f [s..e] ! k))"
    if "k < length (map ?f [s..e])" for k
  proof -
    have "[s..e] ! k \<in> set [s..e]" using that by (intro nth_mem) simp
    then have "0 \<le> [s..e] ! k" "[s..e] ! k \<le> 8 * int (length B) - 1"
      using assms by auto
    then have "getBitStatus large B ([s..e] ! k) = Inr (spec_bit B ([s..e] ! k))"
      by (rule getBitStatus_Inr)
    then show ?thesis using that by simp
  qed
  show ?thesis using r l i g by blast
qed

theorem getBitRange_in_range_witness:
  "(0::int) \<le> 1 \<and> (1::int) \<le> 3 \<and> (3::int) \<le> 8 * int (length [5, 128 :: byte]) - 1
   \<and> (3::int) - 1 + 1 \<le> 10000
   \<and> (\<exists>xs. getBitRange example_large [5, 128] 1 3 = Inr xs
           \<and> int (length xs) = 3 - 1 + 1
           \<and> map index xs = [1..3]
           \<and> (\<forall>k < length xs. getBitStatus example_large [5, 128] (index (xs ! k)) = Inr (status (xs ! k))))"
  using getBitRange_in_range [of 1 3 "[5, 128]" example_large] by simp

text \<open>
  C4. \<^verbatim>\<open>getBitRange(B, start, end)\<close> returns a DetailedError with code
  \<^verbatim>\<open>INVALID_BIT_RANGE\<close>, and no list, whenever \<open>end < start\<close>, or \<open>start < 0\<close>, or
  \<open>start\<close> or \<open>end\<close> exceeds \<open>8 * length B - 1\<close>, or \<open>end - start + 1 > 10000\<close>.
\<close>

theorem getBitRange_invalid:
  assumes "e < s \<or> s < 0 \<or> s > 8 * int (length B) - 1 \<or> e > 8 * int (length B) - 1
           \<or> e - s + 1 > 10000"
  shows "\<exists>err. getBitRange large B s e = Inl err \<and> code err = INVALID_BIT_RANGE"
proof -
  from assms obtain err where "getBitRange large B s e = Inl err"
    using getBitRange_error_iff [of large B s e] by auto
  then show ?thesis using getBitRange_error_code by blast
qed

theorem getBitRange_invalid_witness:
  "((1::int) < 3 \<or> (3::int) < 0 \<or> 3 > 8 * int (length [5, 128 :: byte]) - 1
      \<or> 1 > 8 * int (length [5, 128 :: byte]) - 1 \<or> (1::int) - 3 + 1 > 10000)
   \<and> (\<exists>err. getBitRange example_large [5, 128] 3 1 = Inl err \<and> code err = INVALID_BIT_RANGE)
   \<and> (\<exists>err. getBitRange example_large [5, 128] (-1) 3 = Inl err \<and> code err = INVALID_BIT_RANGE)
   \<and> (\<exists>err. getBitRange example_large [5, 128] 3 16 = Inl err \<and> code err = INVALID_BIT_RANGE)
   \<and> (\<exists>err. getBitRange example_large (replicate 2000 0) 0 10000 = Inl err \<and> code err = INVALID_BIT_RANGE)"
  using getBitRange_invalid [of 1 3 "[5, 128]" example_large]
    getBitRange_invalid [of 3 "-1" "[5, 128]" example_large]
    getBitRange_invalid [of 16 3 "[5, 128]" example_large]
    getBitRange_invalid [of 10000 0 "replicate 2000 0" example_large]
  by simp

text \<open>
  C5. Every entry of a successful \<^verbatim>\<open>getBitRange\<close> should carry the status purpose the
  credential declares. The function is not given the credential and writes the literal
  \<^verbatim>\<open>revocation\<close>: for a list whose credential declares \<^verbatim>\<open>suspension\<close>, the range \<open>0..0\<close>
  of the one-byte array \<open>[0]\<close> comes back labelled \<^verbatim>\<open>revocation\<close>.
\<close>

theorem getBitRange_purpose_hardcoded:
  "getBitRange example_large [0] 0 0 = Inr [\<lparr>index = 0, status = False, purpose = ''revocation''\<rparr>]
   \<and> ''revocation'' \<noteq> ''suspension''"
  by (simp add: getBitRange_def getBitRange_loop.simps bit_eval)

section \<open>Properties of the compression resolver\<close>

lemma gzip_magic_iff: "gzip_magic compressed \<longleftrightarrow> take 2 compressed = [0x1f, 0x8b]"
proof (cases compressed)
  case Nil
  then show ?thesis by (simp add: gzip_magic_def typed_array_get_def)
next
  case (Cons a as)
  then show ?thesis
    by (cases as) (auto simp: gzip_magic_def typed_array_get_def)
qed

lemma resolve_compression_fallback:
  assumes "\<not> gzip_magic compressed" "inflate L True compressed = Inl deflateError"
  shows "resolve_compression L compressed = Inr compressed"
  using assms by (simp add: resolve_compression_def new_Uint8Array_def Let_def)

lemma resolve_compression_code:
  "resolve_compression L compressed = Inl err \<Longrightarrow> code err = GZIP_DECODE_ERROR"
  by (auto simp: resolve_compression_def new_Uint8Array_def Let_def createError_def
      split: if_splits sum.splits)

lemma resolve_compression_no_magic:
  "\<not> gzip_magic compressed \<Longrightarrow> \<exists>d. resolve_compression L compressed = Inr d"
  by (auto simp: resolve_compression_def new_Uint8Array_def Let_def split: sum.splits)

lemma decode_base64url_code:
  "decode_base64url L encodedList = Inr (Inl err) \<Longrightarrow> code err = BASE64_DECODE_ERROR"
  by (auto simp: decode_base64url_def Let_def createError_def split: sum.splits jsval.splits)

lemma decodeStatusList_code:
  "decodeStatusList L encodedList = Inr (Inl err) \<Longrightarrow>
     code err = BASE64_DECODE_ERROR \<or> code err = GZIP_DECODE_ERROR"
  by (auto simp: decodeStatusList_def split: sum.splits
      dest: decode_base64url_code resolve_compression_code)

text \<open>
  C6. For every buffer that the Base64URL stage yields, whose first two bytes are not
  \<open>0x1f 0x8b\<close> and on which raw DEFLATE decompression throws, the compression resolver,
  and with it \<^verbatim>\<open>decodeStatusList\<close>, returns the input bytes unchanged, as a success.
\<close>

theorem decodeStatusList_passthrough:
  assumes "decode_base64url L encodedList = Inr (Inr compressed)"
    and "take 2 compressed \<noteq> [0x1f, 0x8b]"
    and "inflate L True compressed = Inl deflateError"
  shows "resolve_compression L compressed = Inr compressed
       \<and> decodeStatusList L encodedList = Inr (Inr compressed)"
  using assms resolve_compression_fallback [of compressed L deflateError]
  by (simp add: decodeStatusList_def gzip_magic_iff)

theorem decodeStatusList_passthrough_witness:
  "decode_base64url example_libs (JStr ''abc'') = Inr (Inr [0x61, 0x62, 0x63])
   \<and> take 2 [0x61, 0x62, 0x63 :: byte] \<noteq> [0x1f, 0x8b]
   \<and> inflate example_libs True [0x61, 0x62, 0x63] = Inl Thrown_Other
   \<and> resolve_compression example_libs [0x61, 0x62, 0x63] = Inr [0x61, 0x62, 0x63]
   \<and> decodeStatusList example_libs (JStr ''abc'') = Inr (Inr [0x61, 0x62, 0x63])"
proof -
  have a: "decode_base64url example_libs (JStr ''abc'') = Inr (Inr [0x61, 0x62, 0x63])"
    by (simp add: decode_base64url_def example_libs_def)
  have b: "take 2 [0x61, 0x62, 0x63 :: byte] \<noteq> [0x1f, 0x8b]" by simp
  have c: "inflate example_libs True [0x61, 0x62, 0x63] = Inl Thrown_Other"
    by (simp add: example_libs_def)
  show ?thesis using decodeStatusList_passthrough [OF a b c] a b c by simp
qed

text \<open>
  C9. The \<^verbatim>\<open>DECOMPRESSION_ERROR\<close> branch of \<^verbatim>\<open>decodeStatusList\<close> is unreachable: on
  every buffer without the GZIP magic the resolver succeeds (when raw DEFLATE throws, the
  copy of the buffer does not), and no error that \<^verbatim>\<open>decodeStatusList\<close> returns has the
  code \<^verbatim>\<open>DECOMPRESSION_ERROR\<close>.
\<close>

theorem decompression_error_unreachable:
  "(take 2 compressed \<noteq> [0x1f, 0x8b] \<longrightarrow> (\<exists>d. resolve_compression L compressed = Inr d))
   \<and> (decodeStatusList L encodedList = Inr (Inl err) \<longrightarrow> code err \<noteq> DECOMPRESSION_ERROR)"
  using resolve_compression_no_magic [of compressed L] decodeStatusList_code [of L encodedList err]
  by (auto simp: gzip_magic_iff)


theorem decompression_error_unreachable_witness:
  "take 2 [1, 2, 3 :: byte] \<noteq> [0x1f, 0x8b]
   \<and> (\<exists>d. resolve_compression example_libs [1, 2, 3] = Inr d)
   \<and> decodeStatusList example_libs (JStr [CHR 0x1f, CHR 0x8b]) =
        Inr (Inl (createError GZIP_DECODE_ERROR ''Failed to decompress GZIP data''
          (Some ''The GZIP compressed data could not be decompressed. Unknown error'') None
          (Some ''The compressed data may be corrupted. Try fetching the credential again.'')))
   \<and> code (createError GZIP_DECODE_ERROR ''Failed to decompress GZIP data''
          (Some ''The GZIP compressed data could not be decompressed. Unknown error'') None
          (Some ''The compressed data may be corrupted. Try fetching the credential again.''))
        \<noteq> DECOMPRESSION_ERROR"
proof -
  have a: "take 2 [1, 2, 3 :: byte] \<noteq> [0x1f, 0x8b]" by simp
  have b: "decodeStatusList example_libs (JStr [CHR 0x1f, CHR 0x8b]) =
        Inr (Inl (createError GZIP_DECODE_ERROR ''Failed to decompress GZIP data''
          (Some ''The GZIP compressed data could not be decompressed. Unknown error'') None
          (Some ''The compressed data may be corrupted. Try fetching the credential again.'')))"
    by (simp add: decodeStatusList_def decode_base64url_def resolve_compression_def
        gzip_magic_def typed_array_get_def example_libs_def thrown_message_def Let_def)
  show ?thesis
    using decompression_error_unreachable [of "[1, 2, 3]" example_libs
        "JStr [CHR 0x1f, CHR 0x8b]"
        "createError GZIP_DECODE_ERROR ''Failed to decompress GZIP data''
          (Some ''The GZIP compressed data could not be decompressed. Unknown error'') None
          (Some ''The compressed data may be corrupted. Try fetching the credential again.'')"]
      a b by simp
qed

section \<open>Properties of the envelope unwrapper\<close>

lemma strip_prefix_loop_miss:
  "\<forall>p \<in> set ps. \<not> prefix p s \<Longrightarrow> strip_prefix_loop ps s = (s, False)"
  by (induction ps) auto

lemma strip_prefix_loop_hit:
  assumes "p \<in> set possiblePrefixes"
  shows "strip_prefix_loop possiblePrefixes (p @ rest) = (rest, True)"
proof -
  from assms consider "p = ''data:application/vc+jwt,''" | "p = ''data:application/vc-ld+jwt,''"
    | "p = ''data:application/vc+ld+jwt,''" | "p = ''data:application/jwt,''"
    by (auto simp: possiblePrefixes_def)
  then show ?thesis
    by cases (simp_all add: possiblePrefixes_def)
qed

lemma truthy_get_prop: "truthy v \<Longrightarrow> \<exists>x. get_prop v name = Inr x"
  by (cases v) (auto simp: get_prop_def split: option.splits)

text \<open>
  C7. For every document whose \<^verbatim>\<open>type\<close> is \<^verbatim>\<open>EnvelopedVerifiableCredential\<close> and
  whose \<^verbatim>\<open>id\<close> is a non-empty string: when the id starts with one of the four prefixes
  of \<open>possiblePrefixes\<close>, exactly that one prefix is stripped and unwrapping goes on with
  the remainder, whatever the remainder starts with; when it starts with none of them,
  unwrapping fails with a \<^verbatim>\<open>JWT_PARSE_ERROR\<close>, which is also the result of
  \<^verbatim>\<open>fetchStatusList\<close>.
\<close>

theorem decodeEnvelopedCredential_prefix:
  assumes "get_prop cred ''type'' = Inr (JStr ''EnvelopedVerifiableCredential'')"
    and "get_prop cred ''id'' = Inr (JStr s)" and "s \<noteq> []"
  shows "(p \<in> set possiblePrefixes \<and> s = p @ rest \<longrightarrow>
            strip_prefix_loop possiblePrefixes s = (rest, True)
          \<and> decodeEnvelopedCredential_try L cred = decode_jwt_token L rest)
       \<and> ((\<forall>q \<in> set possiblePrefixes. \<not> prefix q s) \<longrightarrow>
            (\<exists>err. decodeEnvelopedCredential L cred = Inl err
                 \<and> code err = JWT_PARSE_ERROR
                 \<and> fetchStatusList_parsed L cred = failure err))"
proof (intro conjI impI)
  assume h: "p \<in> set possiblePrefixes \<and> s = p @ rest"
  then show l: "strip_prefix_loop possiblePrefixes s = (rest, True)"
    using strip_prefix_loop_hit [of p rest] by simp
  show "decodeEnvelopedCredential_try L cred = decode_jwt_token L rest"
    using assms l by (simp add: decodeEnvelopedCredential_try_def)
next
  assume "\<forall>q \<in> set possiblePrefixes. \<not> prefix q s"
  then have l: "strip_prefix_loop possiblePrefixes s = (s, False)"
    by (rule strip_prefix_loop_miss)
  let ?err = "createError JWT_PARSE_ERROR ''Invalid JWT format''
     (Some (''The id field does not contain a valid JWT token with a recognized prefix. Got: ''
              @ [CHR 0x22] @ take 50 s @ ''...'' @ [CHR 0x22]))
     None
     (Some (''Expected format: '' @ [CHR 0x22]
              @ ''data:application/vc+jwt,{JWT_TOKEN}'' @ [CHR 0x22] @ '' or similar''))"
  have t: "decodeEnvelopedCredential_try L cred = Inr (Inl ?err)"
    using assms l by (simp add: decodeEnvelopedCredential_try_def)
  then have d: "decodeEnvelopedCredential L cred = Inl ?err"
    by (simp add: decodeEnvelopedCredential_def)
  have c: "code ?err = JWT_PARSE_ERROR" by (simp add: createError_def)
  have f: "fetchStatusList_parsed L cred = failure ?err"
    using assms(1) d by (simp add: fetchStatusList_parsed_def)
  show "\<exists>err. decodeEnvelopedCredential L cred = Inl err \<and> code err = JWT_PARSE_ERROR
          \<and> fetchStatusList_parsed L cred = failure err"
    using d c f by blast
qed


theorem decodeEnvelopedCredential_prefix_witness:
  "get_prop (JObj [(''type'', JStr ''EnvelopedVerifiableCredential''),
                   (''id'', JStr ''data:application/jwt,data:application/jwt,h.p.s'')]) ''type''
     = Inr (JStr ''EnvelopedVerifiableCredential'')
   \<and> ''data:application/jwt,'' \<in> set possiblePrefixes
   \<and> strip_prefix_loop possiblePrefixes ''data:application/jwt,data:application/jwt,h.p.s''
       = (''data:application/jwt,h.p.s'', True)
   \<and> decodeEnvelopedCredential_try example_libs
        (JObj [(''type'', JStr ''EnvelopedVerifiableCredential''),
               (''id'', JStr ''data:application/jwt,data:application/jwt,h.p.s'')])
       = decode_jwt_token example_libs ''data:application/jwt,h.p.s''
   \<and> \<not> (\<exists>q \<in> set possiblePrefixes. prefix q ''https://example.com/h.p.s'')
   \<and> (\<exists>err. decodeEnvelopedCredential example_libs
               (JObj [(''type'', JStr ''EnvelopedVerifiableCredential''),
                      (''id'', JStr ''https://example.com/h.p.s'')]) = Inl err
           \<and> code err = JWT_PARSE_ERROR
           \<and> fetchStatusList_parsed example_libs
               (JObj [(''type'', JStr ''EnvelopedVerifiableCredential''),
                      (''id'', JStr ''https://example.com/h.p.s'')]) = failure err)"
proof -
  let ?c1 = "JObj [(''type'', JStr ''EnvelopedVerifiableCredential''),
                   (''id'', JStr ''data:application/jwt,data:application/jwt,h.p.s'')]"
  let ?c2 = "JObj [(''type'', JStr ''EnvelopedVerifiableCredential''),
                   (''id'', JStr ''https://example.com/h.p.s'')]"
  have t1: "get_prop ?c1 ''type'' = Inr (JStr ''EnvelopedVerifiableCredential'')"
    by (simp add: get_prop_def)
  have i1: "get_prop ?c1 ''id'' = Inr (JStr ''data:application/jwt,data:application/jwt,h.p.s'')"
    by (simp add: get_prop_def)
  have t2: "get_prop ?c2 ''type'' = Inr (JStr ''EnvelopedVerifiableCredential'')"
    by (simp add: get_prop_def)
  have i2: "get_prop ?c2 ''id'' = Inr (JStr ''https://example.com/h.p.s'')"
    by (simp add: get_prop_def)
  have m: "''data:application/jwt,'' \<in> set possiblePrefixes"
    by (simp add: possiblePrefixes_def)
  have n: "\<forall>q \<in> set possiblePrefixes. \<not> prefix q ''https://example.com/h.p.s''"
    by (simp add: possiblePrefixes_def)
  show ?thesis
    using decodeEnvelopedCredential_prefix [OF t1 i1, of "''data:application/jwt,''"
        "''data:application/jwt,h.p.s''" example_libs]
      decodeEnvelopedCredential_prefix [OF t2 i2, of "''data:application/jwt,''"
        "''data:application/jwt,h.p.s''" example_libs]
      t1 m n
    by simp
qed

section \<open>Properties of the credential validator\<close>

lemma failure_inject: "failure a = failure b \<longleftrightarrow> a = b"
  by (simp add: failure_def)

lemma gate_missing_subject:
  assumes "get_prop slc ''credentialSubject'' = Inr bl" "\<not> truthy bl"
  shows "\<exists>e. validate_and_decode L slc ct orig = Inr (failure e)
           \<and> code e = MISSING_BITSTRING_LIST"
  using assms by (simp add: validate_and_decode_def failure_inject createError_def)

lemma gate_wrong_type:
  assumes "get_prop slc ''credentialSubject'' = Inr bl" "truthy bl"
    "get_prop bl ''type'' = Inr ty" "ty \<noteq> JStr ''BitstringStatusList''"
    "js_to_string ty = Inr found"
  shows "\<exists>e. validate_and_decode L slc ct orig = Inr (failure e)
           \<and> code e = INVALID_CREDENTIAL_FORMAT
           \<and> message e = ''Invalid BitstringStatusList''
           \<and> details e = Some (''Expected type '' @ [CHR 0x22] @ ''BitstringStatusList''
                 @ [CHR 0x22] @ '' but got '' @ [CHR 0x22] @ found @ [CHR 0x22] @ ''.'')"
  using assms by (simp add: validate_and_decode_def failure_inject createError_def)

lemma gate_conversion_throws:
  assumes "get_prop slc ''credentialSubject'' = Inr bl" "truthy bl"
    "get_prop bl ''type'' = Inr ty" "ty \<noteq> JStr ''BitstringStatusList''"
    "js_to_string ty = Inl thrown"
  shows "validate_and_decode L slc ct orig = Inl thrown"
  using assms by (simp add: validate_and_decode_def)

lemma gate_missing_list:
  assumes "get_prop slc ''credentialSubject'' = Inr bl" "truthy bl"
    "get_prop bl ''type'' = Inr (JStr ''BitstringStatusList'')"
    "get_prop bl ''encodedList'' = Inr enc" "\<not> truthy enc"
  shows "\<exists>e. validate_and_decode L slc ct orig = Inr (failure e)
           \<and> code e = INVALID_CREDENTIAL_FORMAT
           \<and> message e = ''Missing encoded list''"
  using assms by (simp add: validate_and_decode_def failure_inject createError_def)

lemma gate_pass:
  assumes "get_prop slc ''credentialSubject'' = Inr bl" "truthy bl"
    "get_prop bl ''type'' = Inr (JStr ''BitstringStatusList'')"
    "get_prop bl ''encodedList'' = Inr enc" "truthy enc"
  shows "validate_and_decode L slc ct orig =
           (case decodeStatusList L enc of
              Inl thrown \<Rightarrow> Inl thrown
            | Inr (Inl err) \<Rightarrow> Inr (failure err)
            | Inr (Inr bits) \<Rightarrow>
                Inr \<lparr>success = True,
                     data = Some \<lparr>credential = slc, bitstringList = bl, decodedBits = bits,
                                  totalBits = int (length bits) * 8, credentialType = ct,
                                  originalEnvelopedCredential = orig\<rparr>,
                     error = None\<rparr>)"
  using assms by (simp add: validate_and_decode_def)

lemma gate_no_decoding:
  assumes "get_prop slc ''credentialSubject'' = Inr bl"
    and "\<not> truthy bl
         \<or> (\<exists>ty. get_prop bl ''type'' = Inr ty \<and> ty \<noteq> JStr ''BitstringStatusList'')
         \<or> (\<exists>enc. get_prop bl ''encodedList'' = Inr enc \<and> \<not> truthy enc)"
  shows "validate_and_decode L slc ct orig = validate_and_decode L' slc ct orig"
  using assms by (auto simp: validate_and_decode_def split: sum.splits)

text \<open>
  C8, as the code has it. For every unwrapped credential document the checks before the
  decoding return: a \<^verbatim>\<open>MISSING_BITSTRING_LIST\<close> error when \<^verbatim>\<open>credentialSubject\<close> is
  absent (or otherwise falsy); an \<^verbatim>\<open>INVALID_CREDENTIAL_FORMAT\<close> error when the subject's
  \<^verbatim>\<open>type\<close> is not \<^verbatim>\<open>BitstringStatusList\<close> and converts to a string, whose
  \<^verbatim>\<open>message\<close> is the fixed text \<^verbatim>\<open>Invalid BitstringStatusList\<close> and whose
  \<^verbatim>\<open>details\<close> field includes the type found; an \<^verbatim>\<open>INVALID_CREDENTIAL_FORMAT\<close> error
  when \<^verbatim>\<open>encodedList\<close> is absent or empty (or otherwise falsy). Decoding proceeds only
  when all three checks pass: then the result is that of \<^verbatim>\<open>decodeStatusList\<close>, and
  otherwise it does not depend on the decoding libraries at all.
\<close>

theorem validation_gate:
  assumes "get_prop slc ''credentialSubject'' = Inr bl"
  shows
    "(\<not> truthy bl \<longrightarrow>
        (\<exists>e. validate_and_decode L slc ct orig = Inr (failure e)
            \<and> code e = MISSING_BITSTRING_LIST))
   \<and> (truthy bl \<and> get_prop bl ''type'' = Inr ty \<and> ty \<noteq> JStr ''BitstringStatusList''
        \<and> js_to_string ty = Inr found \<longrightarrow>
        (\<exists>e. validate_and_decode L slc ct orig = Inr (failure e)
            \<and> code e = INVALID_CREDENTIAL_FORMAT
            \<and> message e = ''Invalid BitstringStatusList''
            \<and> details e = Some (''Expected type '' @ [CHR 0x22] @ ''BitstringStatusList''
                  @ [CHR 0x22] @ '' but got '' @ [CHR 0x22] @ found
                  @ [CHR 0x22] @ ''.'')))
   \<and> (truthy bl \<and> get_prop bl ''type'' = Inr (JStr ''BitstringStatusList'')
        \<and> get_prop bl ''encodedList'' = Inr enc \<and> \<not> truthy enc \<longrightarrow>
        (\<exists>e. validate_and_decode L slc ct orig = Inr (failure e)
            \<and> code e = INVALID_CREDENTIAL_FORMAT
            \<and> message e = ''Missing encoded list''))
   \<and> (truthy bl \<and> get_prop bl ''type'' = Inr (JStr ''BitstringStatusList'')
        \<and> get_prop bl ''encodedList'' = Inr enc \<and> truthy enc \<longrightarrow>
        validate_and_decode L slc ct orig =
          (case decodeStatusList L enc of
             Inl thrown \<Rightarrow> Inl thrown
           | Inr (Inl err) \<Rightarrow> Inr (failure err)
           | Inr (Inr bits) \<Rightarrow>
               Inr \<lparr>success = True,
                    data = Some \<lparr>credential = slc, bitstringList = bl, decodedBits = bits,
                                 totalBits = int (length bits) * 8, credentialType = ct,
                                 originalEnvelopedCredential = orig\<rparr>,
                    error = None\<rparr>))
   \<and> (\<not> truthy bl
        \<or> (get_prop bl ''type'' = Inr ty \<and> ty \<noteq> JStr ''BitstringStatusList'')
        \<or> (get_prop bl ''encodedList'' = Inr enc \<and> \<not> truthy enc) \<longrightarrow>
        validate_and_decode L slc ct orig = validate_and_decode L' slc ct orig)"
proof (intro conjI impI)
  assume "\<not> truthy bl"
  with assms show "\<exists>e. validate_and_decode L slc ct orig = Inr (failure e)
      \<and> code e = MISSING_BITSTRING_LIST"
    by (rule gate_missing_subject)
next
  assume "truthy bl \<and> get_prop bl ''type'' = Inr ty \<and> ty \<noteq> JStr ''BitstringStatusList''
        \<and> js_to_string ty = Inr found"
  then show "\<exists>e. validate_and_decode L slc ct orig = Inr (failure e)
            \<and> code e = INVALID_CREDENTIAL_FORMAT
            \<and> message e = ''Invalid BitstringStatusList''
            \<and> details e = Some (''Expected type '' @ [CHR 0x22] @ ''BitstringStatusList''
                  @ [CHR 0x22] @ '' but got '' @ [CHR 0x22] @ found
                  @ [CHR 0x22] @ ''.'')"
    using gate_wrong_type [OF assms, of ty found L ct orig] by blast
next
  assume "truthy bl \<and> get_prop bl ''type'' = Inr (JStr ''BitstringStatusList'')
        \<and> get_prop bl ''encodedList'' = Inr enc \<and> \<not> truthy enc"
  then show "\<exists>e. validate_and_decode L slc ct orig = Inr (failure e)
            \<and> code e = INVALID_CREDENTIAL_FORMAT
            \<and> message e = ''Missing encoded list''"
    using gate_missing_list [OF assms, of enc L ct orig] by blast
next
  assume "truthy bl \<and> get_prop bl ''type'' = Inr (JStr ''BitstringStatusList'')
        \<and> get_prop bl ''encodedList'' = Inr enc \<and> truthy enc"
  then show "validate_and_decode L slc ct orig =
          (case decodeStatusList L enc of
             Inl thrown \<Rightarrow> Inl thrown
           | Inr (Inl err) \<Rightarrow> Inr (failure err)
           | Inr (Inr bits) \<Rightarrow>
               Inr \<lparr>success = True,
                    data = Some \<lparr>credential = slc, bitstringList = bl, decodedBits = bits,
                                 totalBits = int (length bits) * 8, credentialType = ct,
                                 originalEnvelopedCredential = orig\<rparr>,
                    error = None\<rparr>)"
    using gate_pass [OF assms, of enc L ct orig] by blast
next
  assume "\<not> truthy bl
        \<or> (get_prop bl ''type'' = Inr ty \<and> ty \<noteq> JStr ''BitstringStatusList'')
        \<or> (get_prop bl ''encodedList'' = Inr enc \<and> \<not> truthy enc)"
  then show "validate_and_decode L slc ct orig = validate_and_decode L' slc ct orig"
    using gate_no_decoding [OF assms, of L ct orig L'] by blast
qed

lemma example_subject_props:
  "get_prop (example_credential ty enc) ''credentialSubject''
     = Inr (JObj [(''type'', ty), (''encodedList'', enc)])"
  "truthy (JObj [(''type'', ty), (''encodedList'', enc)])"
  "get_prop (JObj [(''type'', ty), (''encodedList'', enc)]) ''type'' = Inr ty"
  "get_prop (JObj [(''type'', ty), (''encodedList'', enc)]) ''encodedList'' = Inr enc"
  by (simp_all add: example_credential_def get_prop_def)

lemma example_decode:
  "decodeStatusList example_libs (JStr ''abc'') = Inr (Inr [0x61, 0x62, 0x63])"
  by (simp add: decodeStatusList_def decode_base64url_def resolve_compression_def
      gzip_magic_def typed_array_get_def new_Uint8Array_def example_libs_def Let_def)

theorem validation_gate_witness:
  "get_prop (JObj [(''type'', JArr [JStr ''VerifiableCredential''])]) ''credentialSubject''
      = Inr JUndefined
   \<and> \<not> truthy JUndefined
   \<and> (\<exists>e. validate_and_decode example_libs
             (JObj [(''type'', JArr [JStr ''VerifiableCredential''])]) embedded None
           = Inr (failure e) \<and> code e = MISSING_BITSTRING_LIST)
   \<and> JStr ''SomethingElse'' \<noteq> JStr ''BitstringStatusList''
   \<and> (\<exists>e. validate_and_decode example_libs
             (example_credential (JStr ''SomethingElse'') (JStr ''abc'')) embedded None
           = Inr (failure e) \<and> code e = INVALID_CREDENTIAL_FORMAT
         \<and> message e = ''Invalid BitstringStatusList''
         \<and> details e = Some (''Expected type '' @ [CHR 0x22] @ ''BitstringStatusList''
               @ [CHR 0x22] @ '' but got '' @ [CHR 0x22] @ ''SomethingElse'' @ [CHR 0x22] @ ''.''))
   \<and> \<not> truthy (JStr [])
   \<and> (\<exists>e. validate_and_decode example_libs
             (example_credential (JStr ''BitstringStatusList'') (JStr [])) embedded None
           = Inr (failure e) \<and> code e = INVALID_CREDENTIAL_FORMAT
         \<and> message e = ''Missing encoded list'')
   \<and> truthy (JStr ''abc'')
   \<and> validate_and_decode example_libs
        (example_credential (JStr ''BitstringStatusList'') (JStr ''abc'')) embedded None
       = Inr \<lparr>success = True,
              data = Some \<lparr>credential = example_credential (JStr ''BitstringStatusList'') (JStr ''abc''),
                           bitstringList = JObj [(''type'', JStr ''BitstringStatusList''),
                                                 (''encodedList'', JStr ''abc'')],
                           decodedBits = [0x61, 0x62, 0x63],
                           totalBits = 24, credentialType = embedded,
                           originalEnvelopedCredential = None\<rparr>,
              error = None\<rparr>
   \<and> validate_and_decode example_libs
        (example_credential (JStr ''SomethingElse'') (JStr ''abc'')) embedded None
       = validate_and_decode (example_libs\<lparr>toBuffer := (\<lambda>v. Inr [])\<rparr>)
        (example_credential (JStr ''SomethingElse'') (JStr ''abc'')) embedded None"
proof -
  have u: "get_prop (JObj [(''type'', JArr [JStr ''VerifiableCredential''])]) ''credentialSubject''
      = Inr JUndefined"
    by (simp add: get_prop_def)
  have c1: "\<exists>e. validate_and_decode example_libs
             (JObj [(''type'', JArr [JStr ''VerifiableCredential''])]) embedded None
           = Inr (failure e) \<and> code e = MISSING_BITSTRING_LIST"
    using validation_gate [OF u, where L = example_libs and ct = embedded and orig = None]
    by simp
  have c2: "\<exists>e. validate_and_decode example_libs
             (example_credential (JStr ''SomethingElse'') (JStr ''abc'')) embedded None
           = Inr (failure e) \<and> code e = INVALID_CREDENTIAL_FORMAT
         \<and> message e = ''Invalid BitstringStatusList''
         \<and> details e = Some (''Expected type '' @ [CHR 0x22] @ ''BitstringStatusList''
               @ [CHR 0x22] @ '' but got '' @ [CHR 0x22] @ ''SomethingElse'' @ [CHR 0x22] @ ''.'')"
    using validation_gate [OF example_subject_props(1),
      where ty = "JStr ''SomethingElse''" and enc = "JStr ''abc''" and L = example_libs and ct = embedded
        and orig = None and L' = "example_libs" and found = "''SomethingElse''"]
    by (simp add: example_subject_props)
  have c3: "\<exists>e. validate_and_decode example_libs
             (example_credential (JStr ''BitstringStatusList'') (JStr [])) embedded None
           = Inr (failure e) \<and> code e = INVALID_CREDENTIAL_FORMAT
         \<and> message e = ''Missing encoded list''"
    using validation_gate [OF example_subject_props(1),
      where ty = "JStr ''BitstringStatusList''" and enc = "JStr []" and L = example_libs and ct = embedded
        and orig = None and L' = "example_libs"]
    by (simp add: example_subject_props)
  have c4: "validate_and_decode example_libs
        (example_credential (JStr ''BitstringStatusList'') (JStr ''abc'')) embedded None
       = Inr \<lparr>success = True,
              data = Some \<lparr>credential = example_credential (JStr ''BitstringStatusList'') (JStr ''abc''),
                           bitstringList = JObj [(''type'', JStr ''BitstringStatusList''),
                                                 (''encodedList'', JStr ''abc'')],
                           decodedBits = [0x61, 0x62, 0x63],
                           totalBits = 24, credentialType = embedded,
                           originalEnvelopedCredential = None\<rparr>,
              error = None\<rparr>"
    using validation_gate [OF example_subject_props(1),
      where ty = "JStr ''BitstringStatusList''" and enc = "JStr ''abc''" and L = example_libs and ct = embedded
        and orig = None and L' = "example_libs"]
    by (simp add: example_subject_props example_decode)
  have c5: "validate_and_decode example_libs
        (example_credential (JStr ''SomethingElse'') (JStr ''abc'')) embedded None
       = validate_and_decode (example_libs\<lparr>toBuffer := (\<lambda>v. Inr [])\<rparr>)
        (example_credential (JStr ''SomethingElse'') (JStr ''abc'')) embedded None"
    using validation_gate [OF example_subject_props(1),
      where ty = "JStr ''SomethingElse''" and enc = "JStr ''abc''" and L = example_libs and ct = embedded
        and orig = None and L' = "example_libs\<lparr>toBuffer := (\<lambda>v. Inr [])\<rparr>"]
    by (simp add: example_subject_props)
  show ?thesis
    using u c1 c2 c3 c4 c5 by simp
qed

text \<open>
  C8 as the specification words it fails twice. For a credential whose subject has the
  type \<^verbatim>\<open>SomethingElse\<close>, the \<^verbatim>\<open>message\<close> of the error is
  \<^verbatim>\<open>Invalid BitstringStatusList\<close>, in which the type found does not occur. And for a
  subject whose type is the object \<^verbatim>\<open>{"toString": 1}\<close>, printing the type throws, and
  the error that \<^verbatim>\<open>fetchStatusList\<close> returns is not \<^verbatim>\<open>INVALID_CREDENTIAL_FORMAT\<close>
  but \<^verbatim>\<open>UNKNOWN_ERROR\<close>.
\<close>

theorem validation_message_counterexample:
  "map_option message
     (error (fetchStatusList_parsed example_libs
               (example_credential (JStr ''SomethingElse'') (JStr ''abc''))))
     = Some ''Invalid BitstringStatusList''
   \<and> \<not> sublist ''SomethingElse'' ''Invalid BitstringStatusList''
   \<and> JObj [(''toString'', JNum ''1'')] \<noteq> JStr ''BitstringStatusList''
   \<and> map_option code
     (error (fetchStatusList_parsed example_libs
               (example_credential (JObj [(''toString'', JNum ''1'')]) (JStr ''abc''))))
     = Some UNKNOWN_ERROR"
  by code_simp

end
